theory Spec2Isabelle
  imports Complex_Main "HOL-Library.AList"
begin

section \<open>Values of the program\<close>

text \<open>
  A Python \<open>str\<close> is a sequence of Unicode code points, and slicing counts code points;
  it is modelled as the list of its code points. \<open>ascii\<close> turns a literal into one.
\<close>

type_synonym pystr = "nat list"

definition ascii :: "string \<Rightarrow> pystr" where
  "ascii s = map of_char s"

text \<open>
  A float column of the DataFrame holds a number or NaN (a NULL of the database): a
  finite float is modelled as a real number (the rounding of float arithmetic is not
  modelled) and NaN as \<open>None\<close>. Every comparison with NaN is false, and arithmetic on
  NaN gives NaN.
\<close>

type_synonym pyfloat = "real option"

definition float_gt :: "pyfloat \<Rightarrow> real \<Rightarrow> bool" where
  "float_gt a b = (case a of None \<Rightarrow> False | Some x \<Rightarrow> x > b)"

definition float_gt2 :: "pyfloat \<Rightarrow> pyfloat \<Rightarrow> bool" where
  "float_gt2 a b = (case b of None \<Rightarrow> False | Some y \<Rightarrow> float_gt a y)"

definition float_sub :: "pyfloat \<Rightarrow> pyfloat \<Rightarrow> pyfloat" where
  "float_sub a b =
     (case a of None \<Rightarrow> None
      | Some x \<Rightarrow> (case b of None \<Rightarrow> None | Some y \<Rightarrow> Some (x - y)))"

text \<open>
  \<open>round(x, 1)\<close>: one decimal, a tie going to the even neighbour; NaN stays NaN.
\<close>

definition round1_real :: "real \<Rightarrow> real" where
  "round1_real x =
     (let y = x * 10; f = \<lfloor>y\<rfloor> in
      if y - of_int f < 1 / 2 then of_int f / 10
      else if y - of_int f > 1 / 2 then of_int (f + 1) / 10
      else if even f then of_int f / 10 else of_int (f + 1) / 10)"

definition round1 :: "pyfloat \<Rightarrow> pyfloat" where
  "round1 a = map_option round1_real a"

text \<open>\<open>str(n)\<close> of a non-negative integer: its decimal digits.\<close>

fun str_nat :: "nat \<Rightarrow> pystr" where
  "str_nat n = (if n < 10 then [48 + n] else str_nat (n div 10) @ [48 + n mod 10])"

declare str_nat.simps [simp del]

datatype severity = INFO | WARNING | CRITICAL

datatype trend = Improving | Declining

section \<open>The DataFrame\<close>

text \<open>
  One row of the query of \<open>fetch_recent_tests\<close>, with the column names of the SELECT
  (\<open>sample_id\<close> is the column \<open>id\<close>). \<open>createdAt\<close> is a timestamp, here an integer
  number of time units. The supplier and the product of a sample are strings, as the
  API requires of a submission; the three measurements may be missing.
\<close>

record test_record =
  sample_id :: pystr
  tracking_id :: pystr
  peptideType :: pystr
  supplierName :: pystr
  purity :: pyfloat
  endotoxin :: pyfloat
  residualTfa :: pyfloat
  createdAt :: int
  aiGrade :: "pystr option"
  verified :: "bool option"

type_synonym dataframe = "test_record list"

text \<open>\<open>Series.unique()\<close>: the distinct values in order of first appearance.\<close>

fun unique :: "'a list \<Rightarrow> 'a list" where
  "unique [] = []"
| "unique (x # xs) = x # unique (removeAll x xs)"

text \<open>The non-NaN values of a column; every pandas reduction skips NaN.\<close>

definition dropna :: "pyfloat list \<Rightarrow> real list" where
  "dropna col = concat (map (\<lambda>v. case v of None \<Rightarrow> [] | Some x \<Rightarrow> [x]) col)"

text \<open>\<open>Series.mean()\<close>: the mean of the non-NaN values, NaN when there is none.\<close>

definition mean :: "pyfloat list \<Rightarrow> pyfloat" where
  "mean col =
     (let vs = dropna col in
      if vs = [] then None else Some (sum_list vs / real (length vs)))"

text \<open>\<open>Series.max()\<close> and \<open>Series.min()\<close>, NaN when there is no value.\<close>

definition max_col :: "pyfloat list \<Rightarrow> pyfloat" where
  "max_col col = (case dropna col of [] \<Rightarrow> None | x # xs \<Rightarrow> Some (fold max xs x))"

definition min_col :: "pyfloat list \<Rightarrow> pyfloat" where
  "min_col col = (case dropna col of [] \<Rightarrow> None | x # xs \<Rightarrow> Some (fold min xs x))"

text \<open>
  \<open>Series.std()\<close>: the sample standard deviation (one degree of freedom removed) of the
  non-NaN values, NaN when there are fewer than two.
\<close>

definition std :: "pyfloat list \<Rightarrow> pyfloat" where
  "std col =
     (let vs = dropna col; n = length vs in
      if n < 2 then None
      else let m = sum_list vs / real n in
           Some (sqrt (sum_list (map (\<lambda>x. (x - m) ^ 2) vs) / real (n - 1))))"

text \<open>\<open>df[df['supplierName'] == supplier]\<close> and \<open>df[df['peptideType'] == peptide]\<close>.\<close>

definition supplier_rows :: "dataframe \<Rightarrow> pystr \<Rightarrow> dataframe" where
  "supplier_rows df supplier = filter (\<lambda>r. supplierName r = supplier) df"

definition peptide_rows :: "dataframe \<Rightarrow> pystr \<Rightarrow> dataframe" where
  "peptide_rows df peptide = filter (\<lambda>r. peptideType r = peptide) df"

text \<open>\<open>head(n)\<close>, \<open>tail(n)\<close> and \<open>iloc[a:b]\<close> of a DataFrame.\<close>

definition head :: "nat \<Rightarrow> 'a list \<Rightarrow> 'a list" where
  "head n xs = take n xs"

definition tail :: "nat \<Rightarrow> 'a list \<Rightarrow> 'a list" where
  "tail n xs = drop (length xs - n) xs"

definition iloc :: "nat \<Rightarrow> nat \<Rightarrow> 'a list \<Rightarrow> 'a list" where
  "iloc a b xs = take (b - a) (drop a xs)"

section \<open>Decline Detector\<close>

record decline_finding =
  decline_supplier :: pystr
  decline_peptide :: pystr
  decline_previous_avg :: pyfloat
  decline_recent_avg :: pyfloat
  decline_drop :: pyfloat
  decline_sample_count :: nat
  decline_severity :: severity

text \<open>
  \<open>supplier_df\<close> of \<open>detect_declining_suppliers\<close>: the supplier's rows sorted ascending by
  \<open>createdAt\<close>. Rows of equal time keep their order here; pandas leaves their order
  open, and the properties below are stated for the sorted rows, whatever that order.
\<close>

definition decline_supplier_df :: "dataframe \<Rightarrow> pystr \<Rightarrow> dataframe" where
  "decline_supplier_df df supplier = sort_key createdAt (supplier_rows df supplier)"

definition decline_recent :: "dataframe \<Rightarrow> pyfloat" where
  "decline_recent supplier_df = mean (map purity (head 3 supplier_df))"

definition decline_previous :: "dataframe \<Rightarrow> pyfloat" where
  "decline_previous supplier_df =
     (if length supplier_df > 3 then mean (map purity (iloc 3 6 supplier_df))
      else decline_recent supplier_df)"

definition decline_drop_of :: "dataframe \<Rightarrow> pyfloat" where
  "decline_drop_of supplier_df =
     float_sub (decline_previous supplier_df) (decline_recent supplier_df)"

text \<open>
  The body of the loop over the suppliers: \<open>declining\<close> is the list built so far.
  \<open>iloc[0]\<close> is read only where the supplier has four rows or more.
\<close>

definition decline_step :: "dataframe \<Rightarrow> pystr \<Rightarrow> decline_finding list \<Rightarrow> decline_finding list" where
  "decline_step df supplier declining =
     (let supplier_df = decline_supplier_df df supplier in
      if length supplier_df \<ge> 4 then
        let recent = decline_recent supplier_df;
            previous = decline_previous supplier_df;
            drop = decline_drop_of supplier_df
        in if float_gt drop 2.0 then
             declining @
               [\<lparr>decline_supplier = supplier,
                 decline_peptide = peptideType (supplier_df ! 0),
                 decline_previous_avg = round1 previous,
                 decline_recent_avg = round1 recent,
                 decline_drop = round1 drop,
                 decline_sample_count = length supplier_df,
                 decline_severity = (if float_gt drop 5.0 then CRITICAL else WARNING)\<rparr>]
           else declining
      else declining)"

definition detect_declining_suppliers :: "dataframe \<Rightarrow> decline_finding list" where
  "detect_declining_suppliers df =
     fold (decline_step df) (unique (map supplierName df)) []"

section \<open>Variance Analyzer\<close>

record variance_finding =
  variance_supplier :: pystr
  variance_peptide :: pystr
  variance_mean :: pyfloat
  variance_std_dev :: pyfloat
  variance_range :: pyfloat
  variance_batches :: nat
  variance_severity :: severity

definition range_purity :: "dataframe \<Rightarrow> pyfloat" where
  "range_purity supplier_df =
     float_sub (max_col (map purity supplier_df)) (min_col (map purity supplier_df))"

definition variance_step :: "dataframe \<Rightarrow> pystr \<Rightarrow> variance_finding list \<Rightarrow> variance_finding list" where
  "variance_step df supplier variance_issues =
     (let supplier_df = supplier_rows df supplier in
      if length supplier_df \<ge> 3 then
        let std_dev = std (map purity supplier_df) in
        if float_gt (range_purity supplier_df) 5.0 then
          variance_issues @
            [\<lparr>variance_supplier = supplier,
              variance_peptide = peptideType (supplier_df ! 0),
              variance_mean = round1 (mean (map purity supplier_df)),
              variance_std_dev = round1 std_dev,
              variance_range = round1 (range_purity supplier_df),
              variance_batches = length supplier_df,
              variance_severity = WARNING\<rparr>]
        else variance_issues
      else variance_issues)"

definition detect_batch_variance :: "dataframe \<Rightarrow> variance_finding list" where
  "detect_batch_variance df =
     fold (variance_step df) (unique (map supplierName df)) []"

section \<open>Safety Scanner\<close>

text \<open>
  A concern is a formatted string with the measured value in it:
  \<open>High_endotoxin v\<close> is \<open>f"High endotoxin: {v} EU/mg"\<close> and \<open>High_residual_TFA v\<close> is
  \<open>f"High residual TFA: {v}%"\<close>. The text Python prints for a float is not modelled, so
  the string is kept as its template and its value.
\<close>

datatype concern = High_endotoxin real | High_residual_TFA real

record safety_finding =
  safety_tracking_id :: pystr
  safety_supplier :: pystr
  safety_peptide :: pystr
  safety_concerns :: "concern list"
  safety_severity :: severity

text \<open>
  The two checks of one row, each taking and returning the pair of \<open>concerns\<close> and
  \<open>severity\<close> that the loop body assigns to.
\<close>

definition check_endotoxin :: "test_record \<Rightarrow> concern list \<times> severity \<Rightarrow> concern list \<times> severity" where
  "check_endotoxin row st =
     (case endotoxin row of
        None \<Rightarrow> st
      | Some e \<Rightarrow>
          if e > 1.0 then
            (fst st @ [High_endotoxin e], if e > 2.0 then CRITICAL else WARNING)
          else st)"

definition check_residual_tfa :: "test_record \<Rightarrow> concern list \<times> severity \<Rightarrow> concern list \<times> severity" where
  "check_residual_tfa row st =
     (case residualTfa row of
        None \<Rightarrow> st
      | Some t \<Rightarrow>
          if t > 1.5 then (fst st @ [High_residual_TFA t], WARNING)
          else st)"

definition safety_step :: "test_record \<Rightarrow> safety_finding list \<Rightarrow> safety_finding list" where
  "safety_step row safety_issues =
     (let st = check_residual_tfa row (check_endotoxin row ([], INFO));
          concerns = fst st;
          severity = snd st
      in if concerns \<noteq> [] then
           safety_issues @
             [\<lparr>safety_tracking_id = tracking_id row,
               safety_supplier = supplierName row,
               safety_peptide = peptideType row,
               safety_concerns = concerns,
               safety_severity = severity\<rparr>]
         else safety_issues)"

definition detect_safety_concerns :: "dataframe \<Rightarrow> safety_finding list" where
  "detect_safety_concerns df = fold safety_step df []"

section \<open>Trend Aggregator\<close>

record trend_entry =
  trend_avg_purity :: pyfloat
  trend_trend :: trend
  trend_sample_count :: nat

text \<open>
  The dictionary \<open>trends\<close> keeps its keys in the order of insertion: an association
  list, where an assignment to a key replaces its value in place or adds the key at
  the end.
\<close>

type_synonym trends = "(pystr \<times> trend_entry) list"

definition trend_recent_avg :: "dataframe \<Rightarrow> pyfloat" where
  "trend_recent_avg peptide_df = mean (map purity (head 3 peptide_df))"

definition trend_older_avg :: "dataframe \<Rightarrow> pyfloat" where
  "trend_older_avg peptide_df = mean (map purity (tail 3 peptide_df))"

definition trend_step :: "dataframe \<Rightarrow> pystr \<Rightarrow> trends \<Rightarrow> trends" where
  "trend_step df peptide trends =
     (let peptide_df = peptide_rows df peptide in
      if length peptide_df \<ge> 5 then
        let recent_avg = trend_recent_avg peptide_df;
            older_avg = trend_older_avg peptide_df
        in AList.update peptide
             \<lparr>trend_avg_purity = round1 (mean (map purity peptide_df)),
              trend_trend = (if float_gt2 recent_avg older_avg then Improving else Declining),
              trend_sample_count = length peptide_df\<rparr>
             trends
      else trends)"

definition analyze_market_trends :: "dataframe \<Rightarrow> trends" where
  "analyze_market_trends df = fold (trend_step df) (unique (map peptideType df)) []"

section \<open>Collaborators and effects\<close>

text \<open>
  What leaves the process is kept as a trace of events, in order: the lines printed,
  the database query, the request to the text-generation service and the posts to the
  webhook. Every function with an effect takes the trace so far and returns its
  outcome with the extended trace; an exception is the outcome \<open>Inl\<close>.
\<close>

datatype error = Database_error | Api_error | Index_error | Request_exception

text \<open>
  The prompt is one formatted string; it is kept as the values formatted into it: the
  three counts of the summary, for each kind of finding its count and its first five
  items, and the market trends.
\<close>

record prompt =
  prompt_total_tests :: nat
  prompt_unique_suppliers :: nat
  prompt_unique_peptides :: nat
  prompt_declining_count :: nat
  prompt_declining :: "decline_finding list"
  prompt_variance_count :: nat
  prompt_variance :: "variance_finding list"
  prompt_safety_count :: nat
  prompt_safety :: "safety_finding list"
  prompt_market_trends :: trends

text \<open>
  The text of a section block is \<open>f"*{supplier}*\n{concern_text}"\<close>, where the concern
  text is a concern of a safety finding or \<open>f"Quality drop: {drop}%"\<close>; it is kept as
  the supplier and the concern text.
\<close>

datatype concern_text = Concern_text concern | Quality_drop pyfloat

datatype block = Header pystr | Section pystr concern_text

datatype payload =
    Blocks (message_blocks: "block list")
  | Report (report_text: pystr) (attachment_color: pystr) (attachment_text: pystr)

datatype output_line =
    Running
  | No_recent_tests
  | Complete nat nat nat
  | Insights pystr

datatype event =
    Printed output_line
  | Queried nat
  | Asked prompt
  | Posted pystr payload

text \<open>
  The detector object with its collaborators: \<open>engine\<close> answers the query for a number
  of days with the rows or an exception, \<open>claude\<close> answers a prompt with the texts of
  the content blocks of the message or an exception, \<open>slack_webhook\<close> is the value of
  the environment variable, and \<open>requests_post\<close> tells whether a post to a URL returns
  (\<open>True\<close>) or raises.
\<close>

record trend_detector =
  engine :: "nat \<Rightarrow> error + dataframe"
  claude :: "prompt \<Rightarrow> error + pystr list"
  slack_webhook :: "pystr option"
  requests_post :: "pystr \<Rightarrow> payload \<Rightarrow> bool"

type_synonym 'a io = "event list \<Rightarrow> (error + 'a) \<times> event list"

definition fetch_recent_tests :: "trend_detector \<Rightarrow> nat \<Rightarrow> dataframe io" where
  "fetch_recent_tests self days tr = (engine self days, tr @ [Queried days])"

section \<open>Insight Synthesizer\<close>

definition build_prompt ::
  "dataframe \<Rightarrow> decline_finding list \<Rightarrow> variance_finding list \<Rightarrow> safety_finding list \<Rightarrow> prompt" where
  "build_prompt df declining variance safety =
     \<lparr>prompt_total_tests = length df,
      prompt_unique_suppliers = length (unique (map supplierName df)),
      prompt_unique_peptides = length (unique (map peptideType df)),
      prompt_declining_count = length declining,
      prompt_declining = take 5 declining,
      prompt_variance_count = length variance,
      prompt_variance = take 5 variance,
      prompt_safety_count = length safety,
      prompt_safety = take 5 safety,
      prompt_market_trends = analyze_market_trends df\<rparr>"

definition generate_ai_insights ::
  "trend_detector \<Rightarrow> dataframe \<Rightarrow> decline_finding list \<Rightarrow> variance_finding list \<Rightarrow>
   safety_finding list \<Rightarrow> pystr io" where
  "generate_ai_insights self df declining variance safety tr =
     (let prompt = build_prompt df declining variance safety;
          tr' = tr @ [Asked prompt]
      in case claude self prompt of
           Inl e \<Rightarrow> (Inl e, tr')
         | Inr content \<Rightarrow>
             (case content of
                [] \<Rightarrow> (Inl Index_error, tr')
              | t # _ \<Rightarrow> (Inr t, tr')))"

section \<open>Alert Dispatcher\<close>

text \<open>The list \<open>critical\<close> holds dictionaries of two kinds.\<close>

datatype issue = Decline_issue decline_finding | Safety_issue safety_finding

definition critical_issues :: "decline_finding list \<Rightarrow> safety_finding list \<Rightarrow> issue list" where
  "critical_issues declining safety =
     map Decline_issue (filter (\<lambda>d. decline_severity d = CRITICAL) declining)
     @ map Safety_issue (filter (\<lambda>s. safety_severity s = CRITICAL) safety)"

fun issue_supplier :: "issue \<Rightarrow> pystr" where
  "issue_supplier (Decline_issue d) = decline_supplier d"
| "issue_supplier (Safety_issue s) = safety_supplier s"

text \<open>
  \<open>issue.get('concerns', [f"Quality drop: ..."])\<close> followed by \<open>concern_text[0]\<close>: a
  decline finding has no concerns and gets the default, a safety finding gives its first
  concern, and an empty list of concerns raises IndexError.
\<close>

fun issue_concern_text :: "issue \<Rightarrow> error + concern_text" where
  "issue_concern_text (Decline_issue d) = Inr (Quality_drop (decline_drop d))"
| "issue_concern_text (Safety_issue s) =
     (case safety_concerns s of
        [] \<Rightarrow> Inl Index_error
      | c # _ \<Rightarrow> Inr (Concern_text c))"

fun append_sections :: "issue list \<Rightarrow> block list \<Rightarrow> error + block list" where
  "append_sections [] blocks = Inr blocks"
| "append_sections (issue # rest) blocks =
     (case issue_concern_text issue of
        Inl e \<Rightarrow> Inl e
      | Inr concern_text \<Rightarrow>
          append_sections rest (blocks @ [Section (issue_supplier issue) concern_text]))"

definition alert_header :: pystr where
  "alert_header = [128680] @ ascii '' CRITICAL QUALITY ALERTS''"

definition weekly_summary ::
  "decline_finding list \<Rightarrow> safety_finding list \<Rightarrow> pystr \<Rightarrow> nat \<Rightarrow> payload" where
  "weekly_summary declining safety insights total_tests =
     Report
       ([128202] @ ascii '' Weekly Quality Report: '' @ str_nat total_tests
        @ ascii '' tests, '' @ str_nat (length declining) @ ascii '' declining, ''
        @ str_nat (length safety) @ ascii '' safety issues'')
       (ascii ''#36a64f'')
       (take 500 insights @ ascii ''...'')"

definition post :: "trend_detector \<Rightarrow> pystr \<Rightarrow> payload \<Rightarrow> unit io" where
  "post self url p tr =
     (if requests_post self url p then (Inr (), tr @ [Posted url p])
      else (Inl Request_exception, tr @ [Posted url p]))"

definition send_alerts ::
  "trend_detector \<Rightarrow> decline_finding list \<Rightarrow> variance_finding list \<Rightarrow> safety_finding list \<Rightarrow>
   pystr \<Rightarrow> nat \<Rightarrow> unit io" where
  "send_alerts self declining variance safety insights total_tests tr =
     (case slack_webhook self of
        None \<Rightarrow> (Inr (), tr)
      | Some url \<Rightarrow>
          if url = [] then (Inr (), tr)
          else
            let critical = critical_issues declining safety;
                summary = weekly_summary declining safety insights total_tests
            in if critical \<noteq> [] then
                 (case append_sections (take 3 critical) [Header alert_header] of
                    Inl e \<Rightarrow> (Inl e, tr)
                  | Inr blocks \<Rightarrow>
                      (case post self url (Blocks blocks) tr of
                         (Inl e, tr') \<Rightarrow> (Inl e, tr')
                       | (Inr _, tr') \<Rightarrow> post self url summary tr'))
               else post self url summary tr)"

section \<open>The run\<close>

definition run :: "trend_detector \<Rightarrow> (error + unit) \<times> event list" where
  "run self =
     (case fetch_recent_tests self 7 [Printed Running] of
        (Inl e, tr) \<Rightarrow> (Inl e, tr)
      | (Inr df, tr) \<Rightarrow>
          if length df = 0 then (Inr (), tr @ [Printed No_recent_tests])
          else
            let declining = detect_declining_suppliers df;
                variance = detect_batch_variance df;
                safety = detect_safety_concerns df
            in (case generate_ai_insights self df declining variance safety tr of
                  (Inl e, tr') \<Rightarrow> (Inl e, tr')
                | (Inr insights, tr') \<Rightarrow>
                    (case send_alerts self declining variance safety insights (length df) tr' of
                       (Inl e, tr'') \<Rightarrow> (Inl e, tr'')
                     | (Inr _, tr'') \<Rightarrow>
                         (Inr (),
                          tr'' @ [Printed (Complete (length declining) (length variance)
                                             (length safety)),
                                  Printed (Insights (take 200 insights @ ascii ''...''))]))))"

section \<open>Example records\<close>

text \<open>
  A row with the given tracking id, supplier, product, purity, endotoxin, residual TFA
  and time of completion; the examples below are built from it.
\<close>

definition sample ::
  "string \<Rightarrow> string \<Rightarrow> string \<Rightarrow> pyfloat \<Rightarrow> pyfloat \<Rightarrow> pyfloat \<Rightarrow> int \<Rightarrow> test_record" where
  "sample tid supplier peptide p e t created =
     \<lparr>sample_id = ascii tid, tracking_id = ascii tid, peptideType = ascii peptide,
      supplierName = ascii supplier, purity = p, endotoxin = e, residualTfa = t,
      createdAt = created, aiGrade = None, verified = None\<rparr>"

definition safety_example :: dataframe where
  "safety_example =
     [sample ''PTQ-1'' ''Acme'' ''BPC157'' (Some 98.5) (Some 2.5) (Some 1.0) 1,
      sample ''PTQ-2'' ''Acme'' ''BPC157'' (Some 99) (Some 0.5) None 2,
      sample ''PTQ-3'' ''Beta'' ''TB500'' (Some 97) None (Some 1.8) 3]"





text \<open>
  A detector whose database holds the given rows, whose text-generation service
  answers with the given brief, and whose webhook is configured and reachable.
\<close>

definition example_url :: pystr where
  "example_url = ascii ''https://hooks.example/T1''"

definition example_detector :: "dataframe \<Rightarrow> pystr \<Rightarrow> trend_detector" where
  "example_detector df brief =
     \<lparr>engine = (\<lambda>days. Inr df),
      claude = (\<lambda>p. Inr [brief]),
      slack_webhook = Some example_url,
      requests_post = (\<lambda>url p. True)\<rparr>"

definition decline_of :: "string \<Rightarrow> real \<Rightarrow> severity \<Rightarrow> decline_finding" where
  "decline_of supplier d sev =
     \<lparr>decline_supplier = ascii supplier, decline_peptide = ascii ''BPC157'',
      decline_previous_avg = Some (90 + d), decline_recent_avg = Some 90,
      decline_drop = Some d, decline_sample_count = 6, decline_severity = sev\<rparr>"

definition safety_of :: "string \<Rightarrow> string \<Rightarrow> concern list \<Rightarrow> severity \<Rightarrow> safety_finding" where
  "safety_of tid supplier cs sev =
     \<lparr>safety_tracking_id = ascii tid, safety_supplier = ascii supplier,
      safety_peptide = ascii ''TB500'', safety_concerns = cs, safety_severity = sev\<rparr>"

definition alert_declining :: "decline_finding list" where
  "alert_declining =
     [decline_of ''Acme'' 14 CRITICAL, decline_of ''Beta'' 3 WARNING,
      decline_of ''Gamma'' 6 CRITICAL]"

definition alert_safety :: "safety_finding list" where
  "alert_safety =
     [safety_of ''PTQ-1'' ''Delta'' [High_endotoxin 2.5] CRITICAL,
      safety_of ''PTQ-2'' ''Acme'' [High_residual_TFA 1.8] WARNING,
      safety_of ''PTQ-3'' ''Epsilon'' [High_endotoxin 3] CRITICAL]"

section \<open>Loops that append\<close>

lemma set_unique: "set (unique xs) = set xs"
  by (induction xs rule: unique.induct) auto

lemma distinct_unique: "distinct (unique xs)"
  by (induction xs rule: unique.induct) (auto simp: set_unique)

text \<open>
  A loop whose body appends to the list it builds yields the concatenation of what each
  iteration appends to the empty list.
\<close>

lemma fold_append_concat:
  assumes "\<And>x acc. f x acc = acc @ f x []"
  shows "fold f xs acc = acc @ concat (map (\<lambda>x. f x []) xs)"
proof (induction xs arbitrary: acc)
  case Nil
  show ?case by simp
next
  case (Cons x xs)
  have "fold f (x # xs) acc = fold f xs (f x acc)" by simp
  also have "\<dots> = f x acc @ concat (map (\<lambda>x. f x []) xs)" by (rule Cons.IH)
  also have "f x acc = acc @ f x []" by (rule assms)
  finally show ?case by simp
qed

lemma map_concat_singletons:
  assumes "\<And>x. g x = (if P x then [h x] else [])"
  shows "map k (concat (map g xs)) = map (\<lambda>x. k (h x)) (filter P xs)"
  by (induction xs) (simp_all add: assms)

section \<open>Properties of the Safety Scanner\<close>

lemma safety_step_append: "safety_step row acc = acc @ safety_step row []"
  by (simp add: safety_step_def Let_def)

lemma detect_safety_concerns_concat:
  "detect_safety_concerns df = concat (map (\<lambda>row. safety_step row []) df)"
  unfolding detect_safety_concerns_def
  using fold_append_concat [of safety_step df "[]", OF safety_step_append] by simp

lemma check_endotoxin_cases:
  "check_endotoxin row ([], INFO) = ([], INFO) \<or>
   (\<exists>e. check_endotoxin row ([], INFO) = ([High_endotoxin e], WARNING)) \<or>
   (\<exists>e. check_endotoxin row ([], INFO) = ([High_endotoxin e], CRITICAL))"
  by (simp add: check_endotoxin_def split: option.split)

lemma safety_step_wf:
  assumes "f \<in> set (safety_step row [])"
  shows "safety_severity f \<noteq> INFO \<and> safety_concerns f \<noteq> []"
  using assms check_endotoxin_cases [of row]
  by (auto simp: safety_step_def check_residual_tfa_def Let_def split: option.splits if_splits)

lemma safety_finding_wf:
  "f \<in> set (detect_safety_concerns df) \<Longrightarrow>
   safety_severity f \<noteq> INFO \<and> safety_concerns f \<noteq> []"
  by (auto simp: detect_safety_concerns_concat dest: safety_step_wf)

text \<open>
  C10. Every finding of the Safety Scanner has severity WARNING or CRITICAL, never INFO,
  and it has at least one concern: a finding is appended only when a check added a
  concern, and each check that adds one assigns the severity.
\<close>

theorem safety_never_info:
  "\<forall>f \<in> set (detect_safety_concerns df).
     (safety_severity f = WARNING \<or> safety_severity f = CRITICAL) \<and>
     safety_severity f \<noteq> INFO \<and> safety_concerns f \<noteq> []"
proof
  fix f assume "f \<in> set (detect_safety_concerns df)"
  then have "safety_severity f \<noteq> INFO \<and> safety_concerns f \<noteq> []"
    by (rule safety_finding_wf)
  then show "(safety_severity f = WARNING \<or> safety_severity f = CRITICAL) \<and>
     safety_severity f \<noteq> INFO \<and> safety_concerns f \<noteq> []"
    by (cases "safety_severity f") simp_all
qed

theorem safety_never_info_witness:
  "map safety_severity (detect_safety_concerns safety_example) = [CRITICAL, WARNING] \<and>
   (\<exists>f. f \<in> set (detect_safety_concerns safety_example) \<and>
      (safety_severity f = WARNING \<or> safety_severity f = CRITICAL) \<and>
      safety_severity f \<noteq> INFO \<and> safety_concerns f \<noteq> [])"
proof -
  have sev: "map safety_severity (detect_safety_concerns safety_example) = [CRITICAL, WARNING]"
    by (simp add: detect_safety_concerns_def safety_step_def check_endotoxin_def
        check_residual_tfa_def safety_example_def sample_def Let_def)
  then have "detect_safety_concerns safety_example \<noteq> []" by auto
  then obtain f where f: "f \<in> set (detect_safety_concerns safety_example)"
    by (cases "detect_safety_concerns safety_example") auto
  from safety_never_info [of safety_example] f
  have "(safety_severity f = WARNING \<or> safety_severity f = CRITICAL) \<and>
      safety_severity f \<noteq> INFO \<and> safety_concerns f \<noteq> []"
    by blast
  with sev f show ?thesis by blast
qed

text \<open>
  Whenever both checks fire, the severity is the one of the residual check.
\<close>

lemma residual_check_overwrites:
  assumes "endotoxin row = Some e" and "e > 2" and "residualTfa row = Some t" and "t > 1.5"
  shows "map safety_severity (detect_safety_concerns [row]) = [WARNING]"
  using assms
  by (simp add: detect_safety_concerns_def safety_step_def check_endotoxin_def
      check_residual_tfa_def Let_def)

text \<open>
  C1. A record with endotoxin above 2.0 and residual TFA above 1.5 should get the
  severity CRITICAL. The scanner gives it WARNING: the residual check assigns WARNING
  whatever the endotoxin check assigned before. Here endotoxin is 2.5 and residual TFA
  is 2.0.
\<close>

theorem safety_critical_overwritten:
  "detect_safety_concerns
     [sample ''PTQ-1'' ''Acme'' ''BPC157'' (Some 98.5) (Some 2.5) (Some 2.0) 1]
   = [\<lparr>safety_tracking_id = ascii ''PTQ-1'', safety_supplier = ascii ''Acme'',
       safety_peptide = ascii ''BPC157'',
       safety_concerns = [High_endotoxin 2.5, High_residual_TFA 2.0],
       safety_severity = WARNING\<rparr>]"
  by (simp add: detect_safety_concerns_def safety_step_def check_endotoxin_def
      check_residual_tfa_def sample_def Let_def)

section \<open>Properties of the Decline Detector\<close>


lemma decline_step_append: "decline_step df s acc = acc @ decline_step df s []"
  by (simp add: decline_step_def Let_def)

lemma detect_declining_suppliers_concat:
  "detect_declining_suppliers df =
     concat (map (\<lambda>s. decline_step df s []) (unique (map supplierName df)))"
  unfolding detect_declining_suppliers_def
  using fold_append_concat [of "decline_step df" _ "[]", OF decline_step_append] by simp

lemma length_decline_supplier_df [simp]:
  "length (decline_supplier_df df s) = length (supplier_rows df s)"
  by (simp add: decline_supplier_df_def)

lemma decline_step_cases:
  "decline_step df s [] =
     (if 4 \<le> length (supplier_rows df s) \<and>
         float_gt (decline_drop_of (decline_supplier_df df s)) 2
      then [\<lparr>decline_supplier = s,
             decline_peptide = peptideType (decline_supplier_df df s ! 0),
             decline_previous_avg = round1 (decline_previous (decline_supplier_df df s)),
             decline_recent_avg = round1 (decline_recent (decline_supplier_df df s)),
             decline_drop = round1 (decline_drop_of (decline_supplier_df df s)),
             decline_sample_count = length (decline_supplier_df df s),
             decline_severity =
               (if float_gt (decline_drop_of (decline_supplier_df df s)) 5
                then CRITICAL else WARNING)\<rparr>]
      else [])"
  by (simp add: decline_step_def Let_def)

lemma decline_suppliers_filter:
  "map decline_supplier (detect_declining_suppliers df) =
     filter (\<lambda>s. 4 \<le> length (supplier_rows df s) \<and>
                 float_gt (decline_drop_of (decline_supplier_df df s)) 2)
       (unique (map supplierName df))"
  unfolding detect_declining_suppliers_concat
  by (subst map_concat_singletons [where g = "\<lambda>s. decline_step df s []", OF decline_step_cases]) simp








section \<open>Properties of the Variance Analyzer\<close>


lemma variance_step_append: "variance_step df s acc = acc @ variance_step df s []"
  by (simp add: variance_step_def Let_def)

lemma detect_batch_variance_concat:
  "detect_batch_variance df =
     concat (map (\<lambda>s. variance_step df s []) (unique (map supplierName df)))"
  unfolding detect_batch_variance_def
  using fold_append_concat [of "variance_step df" _ "[]", OF variance_step_append] by simp

lemma variance_step_cases:
  "variance_step df s [] =
     (if 3 \<le> length (supplier_rows df s) \<and> float_gt (range_purity (supplier_rows df s)) 5
      then [\<lparr>variance_supplier = s,
             variance_peptide = peptideType (supplier_rows df s ! 0),
             variance_mean = round1 (mean (map purity (supplier_rows df s))),
             variance_std_dev = round1 (std (map purity (supplier_rows df s))),
             variance_range = round1 (range_purity (supplier_rows df s)),
             variance_batches = length (supplier_rows df s),
             variance_severity = WARNING\<rparr>]
      else [])"
  by (simp add: variance_step_def Let_def)

lemma variance_suppliers_filter:
  "map variance_supplier (detect_batch_variance df) =
     filter (\<lambda>s. 3 \<le> length (supplier_rows df s) \<and>
                 float_gt (range_purity (supplier_rows df s)) 5)
       (unique (map supplierName df))"
  unfolding detect_batch_variance_concat
  by (subst map_concat_singletons [where g = "\<lambda>s. variance_step df s []", OF variance_step_cases]) simp






text \<open>
  C9. Each detector emits at most one finding for a supplier: the suppliers of the
  findings of the Decline Detector are pairwise distinct, and so are those of the
  findings of the Variance Analyzer.
\<close>

theorem one_finding_per_supplier:
  "distinct (map decline_supplier (detect_declining_suppliers df)) \<and>
   distinct (map variance_supplier (detect_batch_variance df))"
  unfolding decline_suppliers_filter variance_suppliers_filter by (simp add: distinct_unique)

section \<open>Properties of the Trend Aggregator\<close>









section \<open>Properties of the Alert Dispatcher\<close>

lemmas alert_defs =
  send_alerts_def critical_issues_def post_def weekly_summary_def example_detector_def
  example_url_def alert_declining_def alert_safety_def decline_of_def safety_of_def
  alert_header_def Let_def ascii_def str_nat.simps






text \<open>
  C7, as the code has it. With a webhook configured, a call of the dispatcher that
  returns has posted the summary last: its text has the total number of records, the
  number of decline findings and the number of safety findings, and its attachment is
  the first 500 characters of the brief followed by the marker \<open>...\<close>, whatever the
  length of the brief.
\<close>

theorem summary_message:
  assumes "slack_webhook self = Some url" and "url \<noteq> []"
    and "send_alerts self declining variance safety insights total_tests tr = (Inr (), tr')"
  shows "tr' \<noteq> [] \<and>
         last tr' =
           Posted url
             (Report
                ([128202] @ ascii '' Weekly Quality Report: '' @ str_nat total_tests
                 @ ascii '' tests, '' @ str_nat (length declining) @ ascii '' declining, ''
                 @ str_nat (length safety) @ ascii '' safety issues'')
                (ascii ''#36a64f'')
                (take 500 insights @ ascii ''...''))"
  using assms
  by (auto simp: send_alerts_def Let_def post_def weekly_summary_def
      split: if_splits sum.splits prod.splits)

theorem summary_message_witness:
  "slack_webhook (example_detector [] []) = Some example_url \<and> example_url \<noteq> [] \<and>
   length (replicate 501 (65::nat)) > 500 \<and>
   (\<exists>tr'. send_alerts (example_detector [] []) alert_declining [] alert_safety
            (replicate 501 65) 15 [] = (Inr (), tr') \<and>
          last tr' =
            Posted example_url
              (Report
                 ([128202] @
                  ascii '' Weekly Quality Report: 15 tests, 3 declining, 3 safety issues'')
                 (ascii ''#36a64f'') (replicate 500 65 @ ascii ''...'')))"
proof -
  have url: "slack_webhook (example_detector [] []) = Some example_url"
    by (simp add: example_detector_def)
  have nonempty: "example_url \<noteq> []"
    by (simp add: example_url_def ascii_def)
  have sent: "send_alerts (example_detector [] []) alert_declining [] alert_safety
      (replicate 501 65) 15 [] =
     (Inr (),
      [Posted example_url
         (Blocks [Header alert_header,
                  Section (ascii ''Acme'') (Quality_drop (Some 14)),
                  Section (ascii ''Gamma'') (Quality_drop (Some 6)),
                  Section (ascii ''Delta'') (Concern_text (High_endotoxin 2.5))]),
       Posted example_url
         (weekly_summary alert_declining alert_safety (replicate 501 65) 15)])"
    by (simp add: alert_defs)
  from summary_message [OF url nonempty sent]
  have "last
      [Posted example_url
         (Blocks [Header alert_header,
                  Section (ascii ''Acme'') (Quality_drop (Some 14)),
                  Section (ascii ''Gamma'') (Quality_drop (Some 6)),
                  Section (ascii ''Delta'') (Concern_text (High_endotoxin 2.5))]),
       Posted example_url
         (weekly_summary alert_declining alert_safety (replicate 501 65) 15)] =
     Posted example_url
       (Report
          ([128202] @
           ascii '' Weekly Quality Report: 15 tests, 3 declining, 3 safety issues'')
          (ascii ''#36a64f'') (replicate 500 65 @ ascii ''...''))"
    by (simp add: alert_declining_def alert_safety_def ascii_def str_nat.simps)
  with url nonempty sent show ?thesis by simp
qed

text \<open>
  C7, as the claim states it, fails for a brief of 8 characters: the attachment of the
  summary is the brief with the marker appended, not the brief unmarked.
\<close>

theorem summary_marker_counterexample:
  "length (ascii ''All good'') \<le> 500 \<and>
   send_alerts (example_detector [] []) [] [] [] (ascii ''All good'') 15 [] =
     (Inr (),
      [Posted example_url
         (Report ([128202] @ ascii '' Weekly Quality Report: 15 tests, 0 declining, 0 safety issues'')
            (ascii ''#36a64f'') (ascii ''All good...''))]) \<and>
   ascii ''All good...'' \<noteq> ascii ''All good''"
  by (simp add: alert_defs)

section \<open>Properties of the run\<close>

text \<open>
  C8. When the query returns no row, the run returns without an error after printing
  that there are no recent tests: the query is the only call made, so there is no
  request to the text-generation service and no post to the webhook, and no detector
  runs (each of them finds nothing in an empty DataFrame anyway).
\<close>

theorem run_empty:
  assumes "engine self 7 = Inr []"
  shows "run self = (Inr (), [Printed Running, Queried 7, Printed No_recent_tests]) \<and>
         detect_declining_suppliers [] = [] \<and> detect_batch_variance [] = [] \<and>
         detect_safety_concerns [] = []"
  using assms
  by (simp add: run_def fetch_recent_tests_def detect_declining_suppliers_def
      detect_batch_variance_def detect_safety_concerns_def)

theorem run_empty_witness:
  "engine (example_detector [] (ascii ''All good'')) 7 = Inr [] \<and>
   run (example_detector [] (ascii ''All good'')) =
     (Inr (), [Printed Running, Queried 7, Printed No_recent_tests])"
proof -
  have empty: "engine (example_detector [] (ascii ''All good'')) 7 = Inr []"
    by (simp add: example_detector_def)
  from run_empty [OF empty] empty show ?thesis by simp
qed

end
